theory Spec2Isabelle
  imports Main
begin

section \<open>Python values, exceptions and dictionaries\<close>

text \<open>
  The exceptions that can leave the functions of \<^verbatim>\<open>tbone/data/models.py\<close>.
  \<open>ValueError\<close>, \<open>TypeError\<close>, \<open>KeyError\<close> and \<open>AttributeError\<close> are raised by the module
  itself or by the interpreter on its behalf; \<open>FieldError\<close> stands for whatever exception
  a field or an export method raises (they are collaborators, the message identifies the
  failure).
  \<open>ValidationError\<close> is the aggregate the specification describes: a list of per-field
  failures. Nothing in the module constructs it.
\<close>

datatype error =
    ValueError string
  | TypeError string
  | KeyError string
  | AttributeError string
  | FieldError string
  | ValidationError "(string \<times> error) list"

text \<open>
  Python values as they flow through the store and the serializer. A dictionary is an
  association list in insertion order; its keys are strings, since the module reads
  dictionaries at field names only. \<open>PCoro r\<close> is a coroutine object: what calling an
  \<^verbatim>\<open>async def\<close> function returns; awaiting it yields \<open>r\<close>.
\<close>

datatype pyval =
    PNone
  | PBool bool
  | PInt int
  | PStr string
  | PList "pyval list"
  | PDict "(string \<times> pyval) list"
  | PCoro "error + pyval"

type_synonym pydict = "(string \<times> pyval) list"

text \<open>Truth value testing, \<^verbatim>\<open>bool(x)\<close>: \<^verbatim>\<open>None\<close>, \<^verbatim>\<open>False\<close>, zero and the empty
  containers are false, every other object (a coroutine object too) is true.\<close>

fun truthy :: "pyval \<Rightarrow> bool" where
  "truthy PNone = False"
| "truthy (PBool b) = b"
| "truthy (PInt i) = (i \<noteq> 0)"
| "truthy (PStr s) = (s \<noteq> [])"
| "truthy (PList xs) = (xs \<noteq> [])"
| "truthy (PDict kvs) = (kvs \<noteq> [])"
| "truthy (PCoro r) = True"

text \<open>\<^verbatim>\<open>isinstance(x, dict)\<close>\<close>

fun isinstance_dict :: "pyval \<Rightarrow> bool" where
  "isinstance_dict (PDict kvs) = True"
| "isinstance_dict _ = False"

text \<open>
  \<^verbatim>\<open>d[k] = v\<close> on a \<^verbatim>\<open>dict\<close> or an \<^verbatim>\<open>OrderedDict\<close>: a key already present keeps its
  position and gets the new value, a new key goes to the end.
\<close>

fun dict_set :: "('k \<times> 'v) list \<Rightarrow> 'k \<Rightarrow> 'v \<Rightarrow> ('k \<times> 'v) list" where
  "dict_set [] k v = [(k, v)]"
| "dict_set ((k', v') # d) k v =
     (if k' = k then (k, v) # d else (k', v') # dict_set d k v)"

text \<open>\<^verbatim>\<open>d.update(e)\<close>: one assignment per item of \<open>e\<close>, in the order of \<open>e\<close>.\<close>

definition dict_update :: "('k \<times> 'v) list \<Rightarrow> ('k \<times> 'v) list \<Rightarrow> ('k \<times> 'v) list" where
  "dict_update d e = foldl (\<lambda>acc (k, v). dict_set acc k v) d e"

text \<open>\<^verbatim>\<open>d.get(k)\<close>, with its default \<^verbatim>\<open>None\<close>.\<close>

definition dict_get :: "pydict \<Rightarrow> string \<Rightarrow> pyval" where
  "dict_get d k = (case map_of d k of None \<Rightarrow> PNone | Some v \<Rightarrow> v)"

text \<open>\<^verbatim>\<open>del d[k]\<close>: \<^verbatim>\<open>KeyError\<close> when the key is missing.\<close>

definition dict_del :: "(string \<times> 'v) list \<Rightarrow> string \<Rightarrow> error + (string \<times> 'v) list" where
  "dict_del d k =
     (if k \<in> set (map fst d) then Inr (filter (\<lambda>(k', v). k' \<noteq> k) d) else Inl (KeyError k))"

section \<open>Callables: plain functions and coroutine functions\<close>

text \<open>
  A callable of one argument. \<open>is_coroutine_function\<close> is what
  \<^verbatim>\<open>asyncio.iscoroutinefunction\<close> answers for it; \<open>body\<close> is what its code computes
  (\<open>Inl\<close> when it raises).
\<close>

record 'a callable =
  is_coroutine_function :: bool
  body :: "'a \<Rightarrow> error + pyval"

text \<open>
  \<^verbatim>\<open>func(x)\<close>: a coroutine function returns a coroutine object without running its body;
  a plain function runs its body.
\<close>

definition call :: "'a callable \<Rightarrow> 'a \<Rightarrow> error + pyval" where
  "call func x = (if is_coroutine_function func then Inr (PCoro (body func x)) else body func x)"

text \<open>\<^verbatim>\<open>await v\<close>: runs a coroutine object to its result; any value that is not awaitable
  raises \<^verbatim>\<open>TypeError\<close>.\<close>

fun await :: "pyval \<Rightarrow> error + pyval" where
  "await (PCoro r) = r"
| "await _ = Inl (TypeError ''object can't be used in 'await' expression'')"

section \<open>Comparison of values\<close>

text \<open>
  The comparison \<^verbatim>\<open>x == y\<close> of two values: \<^verbatim>\<open>True\<close> and \<^verbatim>\<open>False\<close> are the integers
  1 and 0, lists compare item by item, dictionaries compare as mappings whatever their
  order, and two coroutine objects produced by two calls are never equal.
\<close>

fun py_eq :: "pyval \<Rightarrow> pyval \<Rightarrow> bool" where
  "py_eq PNone y = (y = PNone)"
| "py_eq (PBool b) y =
     (case y of PBool c \<Rightarrow> b = c | PInt j \<Rightarrow> (if b then 1 else 0) = j | _ \<Rightarrow> False)"
| "py_eq (PInt i) y =
     (case y of PBool c \<Rightarrow> i = (if c then 1 else 0) | PInt j \<Rightarrow> i = j | _ \<Rightarrow> False)"
| "py_eq (PStr s) y = (y = PStr s)"
| "py_eq (PList xs) y = (case y of PList ys \<Rightarrow> list_all2 py_eq xs ys | _ \<Rightarrow> False)"
| "py_eq (PDict d) y =
     (case y of
        PDict e \<Rightarrow>
          length d = length e \<and>
          list_all (\<lambda>(k, v). case map_of e k of None \<Rightarrow> False | Some w \<Rightarrow> py_eq v w) d
      | _ \<Rightarrow> False)"
| "py_eq (PCoro r) y = False"

text \<open>\<^verbatim>\<open>x != y\<close>\<close>

definition py_ne :: "pyval \<Rightarrow> pyval \<Rightarrow> bool" where
  "py_ne x y = (\<not> py_eq x y)"

section \<open>Fields, export methods and class attributes\<close>

text \<open>
  A field (\<^verbatim>\<open>BaseField\<close>, defined in \<^verbatim>\<open>tbone/data/fields.py\<close>) is used by the module
  through four members only, which are the components of the record: \<^verbatim>\<open>validate\<close>
  (\<open>Some e\<close> when it raises \<open>e\<close>), the conversions \<^verbatim>\<open>to_python\<close> and \<^verbatim>\<open>to_data\<close>
  (plain or coroutine functions), and \<^verbatim>\<open>_projection\<close>: \<^verbatim>\<open>None\<close> is \<open>None\<close> (never),
  \<^verbatim>\<open>True\<close> is \<open>Some True\<close> (always), \<^verbatim>\<open>False\<close> is \<open>Some False\<close> (if present).
\<close>

record field =
  field_validate :: "pyval \<Rightarrow> error option"
  field_to_python :: "pyval callable"
  field_to_data :: "pyval callable"
  field_projection :: "bool option"

text \<open>
  An export method is a function of \<^verbatim>\<open>self\<close>. What a method can read of \<^verbatim>\<open>self\<close> is its
  store \<^verbatim>\<open>_data\<close>, so the store is the argument. The decorator \<^verbatim>\<open>export\<close> of
  \<^verbatim>\<open>__prepare__\<close> marks the function and puts a plain wrapper around it that calls it
  and returns what it returns: calling the wrapper is \<open>call\<close> on the decorated function.
\<close>

type_synonym export_method = "pydict callable"

text \<open>
  The value bound to a name in a class body: a field, a function decorated with
  \<^verbatim>\<open>export\<close>, or any other object, neither a field nor marked for export (a plain
  method, a constant, a nested class such as \<^verbatim>\<open>Meta\<close>), given by its truth value and by
  the attributes \<^verbatim>\<open>dir\<close> lists for it with their values.
\<close>

datatype attr =
    AField field
  | AExport export_method
  | AObject bool "(string \<times> pyval) list"

type_synonym fields_dict = "(string \<times> field) list"
type_synonym exports_dict = "(string \<times> export_method) list"

section \<open>ModelOptions\<close>

text \<open>
  A \<^verbatim>\<open>ModelOptions\<close> object is its instance dictionary; the class itself carries
  \<^verbatim>\<open>name = None\<close> and \<^verbatim>\<open>namespace = None\<close>, which an attribute read finds when the
  instance dictionary has no entry.
\<close>

type_synonym options = "(string \<times> pyval) list"

text \<open>\<^verbatim>\<open>attr.startswith('_')\<close>\<close>

fun startswith_underscore :: "string \<Rightarrow> bool" where
  "startswith_underscore [] = False"
| "startswith_underscore (c # cs) = (c = CHR ''_'')"

text \<open>The truth value and the \<^verbatim>\<open>dir\<close> listing of a class attribute. The attributes of
  field objects and of functions are not part of the model.\<close>

fun attr_truth :: "attr \<Rightarrow> bool" where
  "attr_truth (AObject t d) = t"
| "attr_truth _ = True"

fun attr_dir :: "attr \<Rightarrow> (string \<times> pyval) list" where
  "attr_dir (AObject t d) = d"
| "attr_dir _ = []"

text \<open>\<^verbatim>\<open>ModelOptions.__init__(self, meta=None)\<close>\<close>

definition ModelOptions :: "attr option \<Rightarrow> options" where
  "ModelOptions meta =
     (case meta of
        None \<Rightarrow> []
      | Some m \<Rightarrow>
          if attr_truth m
          then foldl (\<lambda>self (a, v). if \<not> startswith_underscore a then dict_set self a v else self)
                 [] (attr_dir m)
          else [])"


section \<open>ModelMeta: building the schema of a class\<close>

text \<open>
  A class built by \<^verbatim>\<open>ModelMeta\<close>: its name, \<^verbatim>\<open>_fields\<close> (\<open>cls_fields\<close>), \<^verbatim>\<open>_exports\<close>
  (\<open>cls_exports\<close>), what \<^verbatim>\<open>getattr(cls, 'Meta', None)\<close> finds (\<open>cls_Meta\<close>), and \<^verbatim>\<open>_meta\<close>
  (\<open>cls_meta\<close>). The two maps are ordered dictionaries.
\<close>

record model_class =
  cls_name :: string
  cls_fields :: fields_dict
  cls_exports :: exports_dict
  cls_Meta :: "attr option"
  cls_meta :: options

text \<open>A base class is a class built by \<^verbatim>\<open>ModelMeta\<close>, or a plain class with none of
  \<^verbatim>\<open>_fields\<close>, \<^verbatim>\<open>_exports\<close> and \<^verbatim>\<open>Meta\<close> (\<^verbatim>\<open>ModelSerializer\<close>, \<^verbatim>\<open>object\<close>).\<close>

datatype base = ModelBase model_class | PlainBase

text \<open>\<^verbatim>\<open>ModelMeta.__prepare__\<close>: the namespace a class body starts from.\<close>

definition ModelMeta_prepare :: "string \<Rightarrow> base list \<Rightarrow> (string \<times> attr) list" where
  "ModelMeta_prepare name bases = [(''export'', AObject True [])]"

text \<open>The body of the first loop of \<^verbatim>\<open>ModelMeta.__new__\<close>; \<^verbatim>\<open>deepcopy\<close> is the identity
  on values.\<close>

fun inherit :: "fields_dict \<times> exports_dict \<Rightarrow> base \<Rightarrow> fields_dict \<times> exports_dict" where
  "inherit (flds, exps) (ModelBase b) =
     (dict_update flds (cls_fields b), dict_update exps (cls_exports b))"
| "inherit (flds, exps) PlainBase = (flds, exps)"

text \<open>The body of the second loop.\<close>

fun collect :: "fields_dict \<times> exports_dict \<Rightarrow> string \<times> attr \<Rightarrow> fields_dict \<times> exports_dict" where
  "collect (flds, exps) (key, AExport e) = (flds, dict_set exps key e)"
| "collect (flds, exps) (key, AField f) = (dict_set flds key f, exps)"
| "collect (flds, exps) (key, AObject t d) = (flds, exps)"

text \<open>\<^verbatim>\<open>getattr(cls, 'Meta', None)\<close>: the class's own namespace, then its bases in order
  (the resolution order of a hierarchy in which no class is inherited along two paths).\<close>

fun bases_Meta :: "base list \<Rightarrow> attr option" where
  "bases_Meta [] = None"
| "bases_Meta (PlainBase # bs) = bases_Meta bs"
| "bases_Meta (ModelBase b # bs) =
     (case cls_Meta b of Some m \<Rightarrow> Some m | None \<Rightarrow> bases_Meta bs)"

definition getattr_Meta :: "(string \<times> attr) list \<Rightarrow> base list \<Rightarrow> attr option" where
  "getattr_Meta attrs bases =
     (case map_of attrs ''Meta'' of Some m \<Rightarrow> Some m | None \<Rightarrow> bases_Meta bases)"

text \<open>
  \<^verbatim>\<open>ModelMeta.__new__(mcl, name, bases, attrs)\<close>. \<^verbatim>\<open>field.add_to_class\<close> is a hook of
  the field; it changes neither map and is left out.
\<close>

definition ModelMeta_new :: "string \<Rightarrow> base list \<Rightarrow> (string \<times> attr) list \<Rightarrow> error + model_class" where
  "ModelMeta_new name bases attrs0 =
     (case dict_del attrs0 ''export'' of
        Inl e \<Rightarrow> Inl e
      | Inr attrs \<Rightarrow>
          (let (flds, exps) = foldl collect (foldl inherit ([], []) (rev bases)) attrs;
               opts = getattr_Meta attrs bases
           in Inr \<lparr> cls_name = name, cls_fields = flds, cls_exports = exps,
                    cls_Meta = opts, cls_meta = ModelOptions opts \<rparr>))"

text \<open>A class statement \<^verbatim>\<open>class name(bases): body\<close>: the body's bindings are executed in
  the prepared namespace, then the metaclass builds the class.\<close>

definition class_stmt :: "string \<Rightarrow> base list \<Rightarrow> (string \<times> attr) list \<Rightarrow> error + model_class" where
  "class_stmt name bases stmts =
     ModelMeta_new name bases (dict_update (ModelMeta_prepare name bases) stmts)"

section \<open>Instances\<close>

text \<open>
  An instance of a model class: its class (\<^verbatim>\<open>type(self)\<close>), its identity (what
  \<^verbatim>\<open>is\<close> compares) and its store \<^verbatim>\<open>_data\<close>.

  The methods below keep their names without the leading underscores: \<^verbatim>\<open>_execute\<close> is
  \<open>execute\<close>, \<^verbatim>\<open>_serialize\<close> is \<open>serialize\<close>, \<^verbatim>\<open>_convert\<close> is \<open>convert\<close>, \<^verbatim>\<open>_validate\<close> is
  \<open>validate_internal\<close> (beside \<open>validate\<close>), \<^verbatim>\<open>__iter__\<close> is \<open>iter\<close>, \<^verbatim>\<open>__init__\<close> is
  \<open>Model_init\<close>, \<^verbatim>\<open>__eq__\<close> is \<open>Model_eq\<close> and the class method \<^verbatim>\<open>fields\<close> is \<open>fields_of\<close>.
  Fields and export methods are taken to be functions of their arguments: they do not
  change the instance.
\<close>

record inst =
  inst_type :: model_class
  inst_id :: nat
  inst_data :: pydict

section \<open>ModelSerializer\<close>

text \<open>The expression \<^verbatim>\<open>await func(x)\<close>: the call, then the await of what it returned.\<close>

definition await_call :: "'a callable \<Rightarrow> 'a \<Rightarrow> error + pyval" where
  "await_call func x = (case call func x of Inl e \<Rightarrow> Inl e | Inr c \<Rightarrow> await c)"

text \<open>\<^verbatim>\<open>ModelSerializer._execute(self, func, *args)\<close>, awaited by its caller.\<close>

definition execute :: "'a callable \<Rightarrow> 'a \<Rightarrow> error + pyval" where
  "execute func x =
     (if is_coroutine_function func then await_call func x else call func x)"

text \<open>The first loop of \<^verbatim>\<open>_serialize\<close>, over the items of \<^verbatim>\<open>self._fields\<close>; \<open>data\<close>
  is the dictionary built so far.\<close>

fun serialize_fields :: "fields_dict \<Rightarrow> pydict \<Rightarrow> bool \<Rightarrow> pydict \<Rightarrow> error + pydict" where
  "serialize_fields [] store native data = Inr data"
| "serialize_fields ((field_name, fld) # rest) store native data =
     (let raw_data = dict_get store field_name
      in case (if native then execute (field_to_python fld) raw_data
               else execute (field_to_data fld) raw_data) of
           Inl e \<Rightarrow> Inl e
         | Inr field_data \<Rightarrow>
             serialize_fields rest store native
               (if truthy field_data \<and> field_projection fld \<noteq> None
                then dict_set data field_name field_data
                else if field_data = PNone \<and> field_projection fld = Some True
                then dict_set data field_name PNone
                else data))"

text \<open>The second loop, over the items of \<^verbatim>\<open>self._exports\<close>:
  \<^verbatim>\<open>data[name] = await func(self)\<close>.\<close>

fun serialize_exports :: "exports_dict \<Rightarrow> pydict \<Rightarrow> pydict \<Rightarrow> error + pydict" where
  "serialize_exports [] store data = Inr data"
| "serialize_exports ((name, func) # rest) store data =
     (case await_call func store of
        Inl e \<Rightarrow> Inl e
      | Inr v \<Rightarrow> serialize_exports rest store (dict_set data name v))"

text \<open>\<^verbatim>\<open>_serialize(self, native=True, exports=True, projection=True)\<close>; the body reads
  neither \<^verbatim>\<open>exports\<close> nor \<^verbatim>\<open>projection\<close>.\<close>

definition serialize :: "inst \<Rightarrow> bool \<Rightarrow> bool \<Rightarrow> bool \<Rightarrow> error + pydict" where
  "serialize self native exports projection =
     (case serialize_fields (cls_fields (inst_type self)) (inst_data self) native [] of
        Inl e \<Rightarrow> Inl e
      | Inr data \<Rightarrow> serialize_exports (cls_exports (inst_type self)) (inst_data self) data)"

definition to_data :: "inst \<Rightarrow> error + pydict" where
  "to_data self = serialize self False True True"

definition to_python :: "inst \<Rightarrow> error + pydict" where
  "to_python self = serialize self True True True"

section \<open>Model\<close>

text \<open>\<^verbatim>\<open>Model.__iter__\<close>, as the list of keys the generator yields.\<close>

definition iter :: "inst \<Rightarrow> string list" where
  "iter self =
     filter (\<lambda>key. key \<in> set (map fst (inst_data self))) (map fst (cls_fields (inst_type self)))"

text \<open>\<^verbatim>\<open>Model.fields\<close> (a class method).\<close>

definition fields_of :: "model_class \<Rightarrow> string list" where
  "fields_of cls = map fst (cls_fields cls)"

text \<open>\<^verbatim>\<open>d[k]\<close>: \<^verbatim>\<open>KeyError\<close> when the key is missing.\<close>

definition dict_getitem :: "pydict \<Rightarrow> string \<Rightarrow> error + pyval" where
  "dict_getitem d k = (case map_of d k of None \<Rightarrow> Inl (KeyError k) | Some v \<Rightarrow> Inr v)"

text \<open>\<^verbatim>\<open>Model.items\<close>: the list comprehension over \<^verbatim>\<open>self\<close>.\<close>

fun items_loop :: "pydict \<Rightarrow> string list \<Rightarrow> error + (string \<times> pyval) list" where
  "items_loop d [] = Inr []"
| "items_loop d (k # ks) =
     (case dict_getitem d k of
        Inl e \<Rightarrow> Inl e
      | Inr v \<Rightarrow> (case items_loop d ks of Inl e \<Rightarrow> Inl e | Inr r \<Rightarrow> Inr ((k, v) # r)))"

definition items :: "inst \<Rightarrow> error + (string \<times> pyval) list" where
  "items self = items_loop (inst_data self) (iter self)"

text \<open>\<^verbatim>\<open>Model._validate(self, data)\<close>: \<open>Some e\<close> when the exception \<open>e\<close> leaves the loop.\<close>

fun validate_loop :: "fields_dict \<Rightarrow> pydict \<Rightarrow> error option" where
  "validate_loop [] data = None"
| "validate_loop ((name, fld) # rest) data =
     (case field_validate fld (dict_get data name) of
        Some e \<Rightarrow> Some e
      | None \<Rightarrow> validate_loop rest data)"

definition validate_internal :: "inst \<Rightarrow> pydict \<Rightarrow> error option" where
  "validate_internal self data = validate_loop (cls_fields (inst_type self)) data"

text \<open>\<^verbatim>\<open>Model.validate(self)\<close>\<close>

definition validate :: "inst \<Rightarrow> error option" where
  "validate self = validate_internal self (inst_data self)"

text \<open>\<^verbatim>\<open>Model._convert(self, data, native=True)\<close>: the loop with the dictionary
  \<^verbatim>\<open>converted_data\<close> built so far. The conversions are called, never awaited.\<close>

fun convert_loop :: "fields_dict \<Rightarrow> pydict \<Rightarrow> bool \<Rightarrow> pydict \<Rightarrow> error + pydict" where
  "convert_loop [] data native converted_data = Inr converted_data"
| "convert_loop ((name, fld) # rest) data native converted_data =
     (case (if native then call (field_to_python fld) (dict_get data name)
            else call (field_to_data fld) (dict_get data name)) of
        Inl e \<Rightarrow> Inl e
      | Inr v \<Rightarrow> convert_loop rest data native (dict_set converted_data name v))"

definition convert :: "inst \<Rightarrow> pydict \<Rightarrow> bool \<Rightarrow> error + pydict" where
  "convert self data native = convert_loop (cls_fields (inst_type self)) data native []"

text \<open>
  \<^verbatim>\<open>Model.import_data(self, data)\<close>: the exception raised, if any, and the instance as
  the call leaves it. \<^verbatim>\<open>self._data.update(data)\<close> has already happened when a conversion
  raises.
\<close>

fun import_data :: "inst \<Rightarrow> pyval \<Rightarrow> error option \<times> inst" where
  "import_data self (PDict d) =
     (let self1 = self\<lparr>inst_data := dict_update (inst_data self) d\<rparr>
      in case convert self1 (inst_data self1) True of
           Inl e \<Rightarrow> (Some e, self1)
         | Inr converted \<Rightarrow> (None, self1\<lparr>inst_data := converted\<rparr>))"
| "import_data self data = (Some (ValueError ''Cannot import data not as dict''), self)"

text \<open>\<^verbatim>\<open>Model.export_data(self, native)\<close>\<close>

definition export_data :: "inst \<Rightarrow> bool \<Rightarrow> error + pydict" where
  "export_data self native = convert self (inst_data self) native"

text \<open>\<^verbatim>\<open>Model.__init__(self, data={})\<close> on a new object \<open>oid\<close> of class \<open>cls\<close>: the
  instance, or the exception that leaves the constructor.\<close>

definition Model_init :: "model_class \<Rightarrow> nat \<Rightarrow> pyval \<Rightarrow> error + inst" where
  "Model_init cls oid data =
     (let self = \<lparr> inst_type = cls, inst_id = oid, inst_data = [] \<rparr>
      in if truthy data
         then (case import_data self data of
                 (Some e, self1) \<Rightarrow> Inl e
               | (None, self1) \<Rightarrow>
                   (case validate self1 of Some e \<Rightarrow> Inl e | None \<Rightarrow> Inr self1))
         else Inr self)"

text \<open>
  \<^verbatim>\<open>Model.__eq__(self, other)\<close>; \<open>None\<close> is \<^verbatim>\<open>NotImplemented\<close>. Reading a field of an
  instance, \<^verbatim>\<open>getattr(self, k)\<close>, goes through the descriptor that the field's
  \<^verbatim>\<open>add_to_class\<close> installs; it is the parameter \<open>getattr\<close>.
\<close>

fun eq_loop :: "(inst \<Rightarrow> string \<Rightarrow> pyval) \<Rightarrow> inst \<Rightarrow> inst \<Rightarrow> string list \<Rightarrow> bool" where
  "eq_loop getattr self other [] = True"
| "eq_loop getattr self other (k # ks) =
     (if py_ne (getattr self k) (getattr other k) then False
      else eq_loop getattr self other ks)"

definition Model_eq :: "(inst \<Rightarrow> string \<Rightarrow> pyval) \<Rightarrow> inst \<Rightarrow> inst \<Rightarrow> bool option" where
  "Model_eq getattr self other =
     (if inst_id self = inst_id other then Some True
      else if inst_type self \<noteq> inst_type other then None
      else Some (eq_loop getattr self other (iter self)))"

text \<open>
  Modelled from the spec: the field accessor, installed by \<^verbatim>\<open>BaseField.add_to_class\<close> in
  \<^verbatim>\<open>tbone/data/fields.py\<close>, which is not among the sources. The specification lets a
  field be addressed by its name on the instance and keeps the field values in the
  instance's store: reading field \<open>k\<close> gives the stored value, \<^verbatim>\<open>None\<close> when there is none.
\<close>

definition stored_value :: "inst \<Rightarrow> string \<Rightarrow> pyval" where
  "stored_value self k = dict_get (inst_data self) k"

section \<open>The specification's wording, for comparison\<close>

text \<open>
  Validation as the specification words it: every field is validated and the failures
  are collected, name by name, into one \<open>ValidationError\<close>. \<open>failures\<close> lists the fields
  whose \<^verbatim>\<open>validate\<close> raises on the data, in schema order, each with its exception.
\<close>

definition failures :: "fields_dict \<Rightarrow> pydict \<Rightarrow> (string \<times> error) list" where
  "failures flds data =
     concat (map (\<lambda>(name, fld). case field_validate fld (dict_get data name) of
                                    Some e \<Rightarrow> [(name, e)]
                                  | None \<Rightarrow> []) flds)"

definition validate_collect_all :: "inst \<Rightarrow> error option" where
  "validate_collect_all self =
     (case failures (cls_fields (inst_type self)) (inst_data self) of
        [] \<Rightarrow> None
      | fs \<Rightarrow> Some (ValidationError fs))"

text \<open>
  The schema merge as the specification words it: an entry written at a key that is
  already in the map overwrites it and moves the key to the position of the insertion,
  the end of the map.
\<close>

definition dict_set_reposition :: "('k \<times> 'v) list \<Rightarrow> 'k \<Rightarrow> 'v \<Rightarrow> ('k \<times> 'v) list" where
  "dict_set_reposition d k v = filter (\<lambda>(k', v'). k' \<noteq> k) d @ [(k, v)]"

definition merge_reposition :: "('k \<times> 'v) list \<Rightarrow> ('k \<times> 'v) list \<Rightarrow> ('k \<times> 'v) list" where
  "merge_reposition d e = foldl (\<lambda>acc (k, v). dict_set_reposition acc k v) d e"

text \<open>
  The field declarations that reach a class, in the order in which
  \<^verbatim>\<open>ModelMeta.__new__\<close> meets them: the schemas of the bases, last base first, then the
  fields of the class body.
\<close>

fun base_fields :: "base \<Rightarrow> fields_dict" where
  "base_fields (ModelBase b) = cls_fields b"
| "base_fields PlainBase = []"

fun body_fields :: "(string \<times> attr) list \<Rightarrow> fields_dict" where
  "body_fields [] = []"
| "body_fields ((key, AField f) # rest) = (key, f) # body_fields rest"
| "body_fields ((key, other) # rest) = body_fields rest"

definition declared_fields :: "base list \<Rightarrow> (string \<times> attr) list \<Rightarrow> fields_dict" where
  "declared_fields bases attrs = concat (map base_fields (rev bases)) @ body_fields attrs"

text \<open>The schema the specification's merge gives a class: the declarations are written
  one after the other, each with the overwrite-and-reposition rule.\<close>

definition schema_reposition :: "base list \<Rightarrow> (string \<times> attr) list \<Rightarrow> fields_dict" where
  "schema_reposition bases attrs = merge_reposition [] (declared_fields bases attrs)"

section \<open>Example classes and instances\<close>

text \<open>Conversions that return their argument, as a plain function and as a coroutine
  function.\<close>

definition identity_sync :: "pyval callable" where
  "identity_sync = \<lparr> is_coroutine_function = False, body = Inr \<rparr>"

definition identity_async :: "pyval callable" where
  "identity_async = \<lparr> is_coroutine_function = True, body = Inr \<rparr>"

text \<open>A field that accepts every value, and a required field, which rejects \<^verbatim>\<open>None\<close>.\<close>

definition plain_field :: "bool option \<Rightarrow> field" where
  "plain_field proj =
     \<lparr> field_validate = (\<lambda>v. None), field_to_python = identity_sync,
       field_to_data = identity_sync, field_projection = proj \<rparr>"

definition required_field :: "string \<Rightarrow> field" where
  "required_field name =
     \<lparr> field_validate =
         (\<lambda>v. if v = PNone then Some (FieldError (name @ '': this is a required field''))
              else None),
       field_to_python = identity_sync, field_to_data = identity_sync,
       field_projection = Some False \<rparr>"

text \<open>The class \<^verbatim>\<open>Model\<close> itself: its body binds methods only.\<close>

definition Model_class :: model_class where
  "Model_class =
     \<lparr> cls_name = ''Model'', cls_fields = [], cls_exports = [], cls_Meta = None, cls_meta = [] \<rparr>"

text \<open>\<^verbatim>\<open>class Person(Model): age = required; name = required\<close>\<close>

definition Person :: model_class where
  "Person =
     \<lparr> cls_name = ''Person'',
       cls_fields = [(''age'', required_field ''age''), (''name'', required_field ''name'')],
       cls_exports = [], cls_Meta = None, cls_meta = [] \<rparr>"

text \<open>\<^verbatim>\<open>class Counter(Model): count = field(projection=True)\<close>\<close>

definition Counter :: model_class where
  "Counter =
     \<lparr> cls_name = ''Counter'', cls_fields = [(''count'', plain_field (Some True))],
       cls_exports = [], cls_Meta = None, cls_meta = [] \<rparr>"

text \<open>A class with one field and one export method that is a plain function:
  \<^verbatim>\<open>@export def greeting(self): return 'hello'\<close>\<close>

definition greeting :: export_method where
  "greeting = \<lparr> is_coroutine_function = False, body = (\<lambda>store. Inr (PStr ''hello'')) \<rparr>"

definition Greeter :: model_class where
  "Greeter =
     \<lparr> cls_name = ''Greeter'', cls_fields = [(''title'', plain_field (Some False))],
       cls_exports = [(''greeting'', greeting)], cls_Meta = None, cls_meta = [] \<rparr>"

text \<open>A class whose export method has the name of a field that is never projected, and
  returns \<^verbatim>\<open>None\<close>: \<^verbatim>\<open>@export async def tag(self): return None\<close>\<close>

definition tag :: export_method where
  "tag = \<lparr> is_coroutine_function = True, body = (\<lambda>store. Inr PNone) \<rparr>"

definition Tagged :: model_class where
  "Tagged =
     \<lparr> cls_name = ''Tagged'', cls_fields = [(''tag'', plain_field None)],
       cls_exports = [(''tag'', tag)], cls_Meta = None, cls_meta = [] \<rparr>"


text \<open>The hierarchy \<^verbatim>\<open>A\<close>, \<^verbatim>\<open>B(A)\<close>, \<^verbatim>\<open>C(B)\<close>: \<^verbatim>\<open>A\<close> declares \<^verbatim>\<open>a\<close>, \<^verbatim>\<open>B\<close>
  declares \<^verbatim>\<open>b\<close>, \<^verbatim>\<open>C\<close> declares \<^verbatim>\<open>a\<close> again, as a required field, and \<^verbatim>\<open>c\<close>.\<close>

definition A_class :: model_class where
  "A_class =
     \<lparr> cls_name = ''A'', cls_fields = [(''a'', plain_field (Some False))],
       cls_exports = [], cls_Meta = None, cls_meta = [] \<rparr>"

definition B_class :: model_class where
  "B_class =
     \<lparr> cls_name = ''B'',
       cls_fields = [(''a'', plain_field (Some False)), (''b'', plain_field (Some False))],
       cls_exports = [], cls_Meta = None, cls_meta = [] \<rparr>"

definition C_class :: model_class where
  "C_class =
     \<lparr> cls_name = ''C'',
       cls_fields = [(''a'', required_field ''a''), (''b'', plain_field (Some False)),
                     (''c'', plain_field (Some False))],
       cls_exports = [], cls_Meta = None, cls_meta = [] \<rparr>"

text \<open>Instances: a person after \<^verbatim>\<open>import_data({})\<close>; counters holding 0, \<^verbatim>\<open>None\<close>, nothing
  at all, 1 and 2; a new person and the same person after an import; a tagged object.\<close>

definition blank_person :: inst where
  "blank_person =
     \<lparr> inst_type = Person, inst_id = 0, inst_data = [(''age'', PNone), (''name'', PNone)] \<rparr>"

definition zero_counter :: inst where
  "zero_counter = \<lparr> inst_type = Counter, inst_id = 0, inst_data = [(''count'', PInt 0)] \<rparr>"

definition none_counter :: inst where
  "none_counter = \<lparr> inst_type = Counter, inst_id = 1, inst_data = [(''count'', PNone)] \<rparr>"

definition fresh_counter :: inst where
  "fresh_counter = \<lparr> inst_type = Counter, inst_id = 2, inst_data = [] \<rparr>"

definition one_counter :: inst where
  "one_counter = \<lparr> inst_type = Counter, inst_id = 3, inst_data = [(''count'', PInt 1)] \<rparr>"

definition two_counter :: inst where
  "two_counter = \<lparr> inst_type = Counter, inst_id = 4, inst_data = [(''count'', PInt 2)] \<rparr>"

definition new_person :: inst where
  "new_person = \<lparr> inst_type = Person, inst_id = 5, inst_data = [] \<rparr>"

definition al_person :: inst where
  "al_person =
     \<lparr> inst_type = Person, inst_id = 5,
       inst_data = [(''age'', PNone), (''name'', PStr ''Al'')] \<rparr>"

definition tagged :: inst where
  "tagged = \<lparr> inst_type = Tagged, inst_id = 0, inst_data = [(''tag'', PStr ''x'')] \<rparr>"

section \<open>Unfolding the examples\<close>

lemmas example_defs =
  Person_def Counter_def Greeter_def Tagged_def greeting_def tag_def plain_field_def
  required_field_def identity_sync_def identity_async_def Model_class_def
  A_class_def B_class_def C_class_def

lemmas run_defs =
  to_data_def to_python_def serialize_def execute_def await_call_def call_def dict_get_def
  validate_def validate_internal_def convert_def dict_update_def

lemmas build_defs =
  class_stmt_def ModelMeta_new_def ModelMeta_prepare_def dict_update_def dict_del_def
  getattr_Meta_def ModelOptions_def

section \<open>Dictionaries: basic facts\<close>

lemma map_of_dict_set: "map_of (dict_set d k v) = (map_of d)(k \<mapsto> v)"
  by (induction d k v rule: dict_set.induct) auto

lemma keys_dict_set:
  "map fst (dict_set d k v) = (if k \<in> set (map fst d) then map fst d else map fst d @ [k])"
  by (induction d k v rule: dict_set.induct) auto

lemma dict_update_Nil: "dict_update d [] = d"
  by (simp add: dict_update_def)

lemma dict_update_Cons: "dict_update d ((k, v) # e) = dict_update (dict_set d k v) e"
  by (simp add: dict_update_def)

lemma dict_update_snoc: "dict_update d (e @ [(k, v)]) = dict_set (dict_update d e) k v"
  by (simp add: dict_update_def)

lemma dict_update_append: "dict_update d (e @ e') = dict_update (dict_update d e) e'"
  by (simp add: dict_update_def)

text \<open>The keys after an update: every key stays where it first appeared.\<close>

lemma keys_dict_update:
  "distinct (map fst d) \<Longrightarrow>
     map fst (dict_update d e) = rev (remdups (rev (map fst d @ map fst e)))"
proof (induction e rule: rev_induct)
  case Nil
  then show ?case by (simp add: dict_update_Nil distinct_remdups_id)
next
  case (snoc p e)
  obtain k v where p: "p = (k, v)" by (cases p)
  from snoc have IH: "map fst (dict_update d e) = rev (remdups (rev (map fst d @ map fst e)))"
    by simp
  have mem: "k \<in> set (map fst (dict_update d e)) \<longleftrightarrow> k \<in> set (map fst d @ map fst e)"
    unfolding IH by auto
  show ?case
    unfolding p dict_update_snoc keys_dict_set mem
    by (simp add: IH)
qed

lemma keys_dict_update_set:
  "set (map fst (dict_update d e)) = set (map fst d) \<union> set (map fst e)"
proof (induction e rule: rev_induct)
  case Nil
  show ?case by (simp add: dict_update_Nil)
next
  case (snoc p e)
  obtain k v where p: "p = (k, v)" by (cases p)
  have "set (map fst (dict_set (dict_update d e) k v)) = insert k (set (map fst (dict_update d e)))"
    by (auto simp: keys_dict_set)
  with snoc show ?case unfolding p dict_update_snoc by auto
qed

text \<open>The values after an update: the last item written at a key wins.\<close>

lemma map_of_dict_update: "map_of (dict_update d e) = map_of d ++ map_of (rev e)"
proof (induction e rule: rev_induct)
  case Nil
  show ?case by (simp add: dict_update_Nil)
next
  case (snoc p e)
  obtain k v where p: "p = (k, v)" by (cases p)
  show ?case
    by (auto simp: p dict_update_snoc map_of_dict_set snoc.IH fun_eq_iff map_add_def)
qed

lemma dict_get_absent:
  "name \<notin> fst ` set d \<Longrightarrow> dict_get d name = PNone"
proof -
  assume "name \<notin> fst ` set d"
  then have "map_of d name = None" by (simp add: map_of_eq_None_iff)
  then show ?thesis by (simp add: dict_get_def)
qed

section \<open>Importing data that is not a dictionary\<close>

text \<open>
  Claim C7. When the argument of \<^verbatim>\<open>import_data\<close> is not a dictionary, the call raises
  (a \<^verbatim>\<open>ValueError\<close>) and the instance, its store included, is exactly as it was before
  the call.
\<close>

theorem import_data_rejects_non_dict:
  "\<not> isinstance_dict data \<Longrightarrow>
     import_data self data = (Some (ValueError ''Cannot import data not as dict''), self)"
  by (cases data) simp_all

text \<open>Witness for C7: a list is imported into a counter that holds 3.\<close>

theorem import_data_rejects_non_dict_witness:
  "\<not> isinstance_dict (PList [PInt 1]) \<and>
   import_data \<lparr> inst_type = Counter, inst_id = 0, inst_data = [(''count'', PInt 3)] \<rparr>
       (PList [PInt 1]) =
     (Some (ValueError ''Cannot import data not as dict''),
      \<lparr> inst_type = Counter, inst_id = 0, inst_data = [(''count'', PInt 3)] \<rparr>)"
  using import_data_rejects_non_dict
    [of "PList [PInt 1]"
        "\<lparr> inst_type = Counter, inst_id = 0, inst_data = [(''count'', PInt 3)] \<rparr>"]
  by simp

section \<open>The schema of a class\<close>

lemma fst_foldl_inherit:
  "fst (foldl inherit acc bs) = dict_update (fst acc) (concat (map base_fields bs))"
proof (induction bs arbitrary: acc)
  case Nil
  show ?case by (simp add: dict_update_Nil)
next
  case (Cons b bs)
  obtain flds exps where acc: "acc = (flds, exps)" by (cases acc)
  show ?case unfolding acc
    by (cases b) (simp_all add: Cons.IH dict_update_append)
qed

lemma fst_foldl_collect:
  "fst (foldl collect acc attrs) = dict_update (fst acc) (body_fields attrs)"
proof (induction attrs arbitrary: acc)
  case Nil
  show ?case by (simp add: dict_update_Nil)
next
  case (Cons p attrs)
  obtain flds exps where acc: "acc = (flds, exps)" by (cases acc)
  obtain key val where p: "p = (key, val)" by (cases p)
  show ?case unfolding acc p
    by (cases val) (simp_all add: Cons.IH dict_update_Cons)
qed

text \<open>\<^verbatim>\<open>_fields\<close> is the empty ordered dictionary updated with every declaration in turn.\<close>

lemma ModelMeta_new_fields:
  assumes "ModelMeta_new name bases attrs0 = Inr cls"
  shows "cls_fields cls =
           dict_update [] (declared_fields bases (filter (\<lambda>(k, v). k \<noteq> ''export'') attrs0))"
proof -
  let ?attrs = "filter (\<lambda>(k, v). k \<noteq> ''export'') attrs0"
  from assms have "cls_fields cls = fst (foldl collect (foldl inherit ([], []) (rev bases)) ?attrs)"
    by (auto simp: ModelMeta_new_def dict_del_def Let_def split: if_splits prod.splits)
  then show ?thesis
    by (simp add: fst_foldl_collect fst_foldl_inherit declared_fields_def dict_update_append)
qed

text \<open>The field names of a class built by the metaclass are pairwise different.\<close>

lemma ModelMeta_new_distinct:
  assumes "ModelMeta_new name bases attrs0 = Inr cls"
  shows "distinct (map fst (cls_fields cls))"
  unfolding ModelMeta_new_fields [OF assms] by (simp add: keys_dict_update)

text \<open>A class statement always builds a class: the prepared namespace holds
  \<^verbatim>\<open>export\<close>, so the \<^verbatim>\<open>del\<close> cannot fail.\<close>

lemma class_stmt_returns: "\<exists>cls. class_stmt name bases stmts = Inr cls"
proof -
  have "''export'' \<in> set (map fst (dict_update (ModelMeta_prepare name bases) stmts))"
    unfolding keys_dict_update_set by (simp add: ModelMeta_prepare_def)
  then show ?thesis
    by (simp add: class_stmt_def ModelMeta_new_def dict_del_def Let_def split: prod.splits)
qed

text \<open>The hierarchy of three classes, with the body of the last class in either order.\<close>

lemma three_level_schema_in_order:
  assumes "a \<noteq> b" "a \<noteq> c" "b \<noteq> c" "''export'' \<notin> {a, b, c}"
  shows "\<exists>A B C.
           class_stmt nA [ModelBase Model_class] [(a, AField fa)] = Inr A \<and>
           class_stmt nB [ModelBase A] [(b, AField fb)] = Inr B \<and>
           class_stmt nC [ModelBase B] [(a, AField fa'), (c, AField fc)] = Inr C \<and>
           map fst (cls_fields C) = [a, b, c] \<and>
           map_of (cls_fields C) a = Some fa' \<and>
           cls_fields C = [(a, fa'), (b, fb), (c, fc)]"
  using assms
  by (auto simp: class_stmt_def ModelMeta_new_def ModelMeta_prepare_def dict_update_def
      dict_del_def Model_class_def getattr_Meta_def ModelOptions_def)

lemma three_level_schema_swapped:
  assumes "a \<noteq> b" "a \<noteq> c" "b \<noteq> c" "''export'' \<notin> {a, b, c}"
  shows "\<exists>A B C.
           class_stmt nA [ModelBase Model_class] [(a, AField fa)] = Inr A \<and>
           class_stmt nB [ModelBase A] [(b, AField fb)] = Inr B \<and>
           class_stmt nC [ModelBase B] [(c, AField fc), (a, AField fa')] = Inr C \<and>
           map fst (cls_fields C) = [a, b, c] \<and>
           map_of (cls_fields C) a = Some fa' \<and>
           cls_fields C = [(a, fa'), (b, fb), (c, fc)]"
  using assms
  by (auto simp: class_stmt_def ModelMeta_new_def ModelMeta_prepare_def dict_update_def
      dict_del_def Model_class_def getattr_Meta_def ModelOptions_def)

text \<open>
  Claim C3. In a hierarchy \<open>A\<close>, \<open>B(A)\<close>, \<open>C(B)\<close> whose bodies declare the fields \<open>a\<close>;
  \<open>b\<close>; \<open>a\<close> again and \<open>c\<close> (in either order), the three class statements build their
  classes, and the
  schema of \<open>C\<close> has the keys \<open>a\<close>, \<open>b\<close>, \<open>c\<close> in this order, with \<open>C\<close>'s own field bound to
  \<open>a\<close>. The names are three different names, none of them \<^verbatim>\<open>export\<close>, the name the
  metaclass deletes from every class body.
\<close>

theorem three_level_schema:
  assumes "a \<noteq> b" "a \<noteq> c" "b \<noteq> c" "''export'' \<notin> {a, b, c}"
    and "stmtsC = [(a, AField fa'), (c, AField fc)] \<or> stmtsC = [(c, AField fc), (a, AField fa')]"
  shows "\<exists>A B C.
           class_stmt nA [ModelBase Model_class] [(a, AField fa)] = Inr A \<and>
           class_stmt nB [ModelBase A] [(b, AField fb)] = Inr B \<and>
           class_stmt nC [ModelBase B] stmtsC = Inr C \<and>
           map fst (cls_fields C) = [a, b, c] \<and>
           map_of (cls_fields C) a = Some fa' \<and>
           cls_fields C = [(a, fa'), (b, fb), (c, fc)]"
  using assms(5)
proof
  assume "stmtsC = [(a, AField fa'), (c, AField fc)]"
  then show ?thesis
    using three_level_schema_in_order [OF assms(1-4)] by simp
next
  assume "stmtsC = [(c, AField fc), (a, AField fa')]"
  then show ?thesis
    using three_level_schema_swapped [OF assms(1-4)] by simp
qed

text \<open>Witness for C3: the names \<^verbatim>\<open>a\<close>, \<^verbatim>\<open>b\<close>, \<^verbatim>\<open>c\<close> and four different fields.\<close>

theorem three_level_schema_witness:
  "''a'' \<noteq> ''b'' \<and> ''a'' \<noteq> ''c'' \<and> ''b'' \<noteq> ''c'' \<and> ''export'' \<notin> {''a'', ''b'', ''c''} \<and>
   [(''a'', AField (plain_field (Some True))), (''c'', AField (required_field ''c''))] =
     [(''a'', AField (plain_field (Some True))), (''c'', AField (required_field ''c''))] \<and>
   (\<exists>A B C.
      class_stmt ''A'' [ModelBase Model_class] [(''a'', AField (plain_field None))] = Inr A \<and>
      class_stmt ''B'' [ModelBase A] [(''b'', AField (plain_field (Some False)))] = Inr B \<and>
      class_stmt ''C'' [ModelBase B]
          [(''a'', AField (plain_field (Some True))), (''c'', AField (required_field ''c''))]
        = Inr C \<and>
      map fst (cls_fields C) = [''a'', ''b'', ''c''] \<and>
      map_of (cls_fields C) ''a'' = Some (plain_field (Some True)) \<and>
      cls_fields C =
        [(''a'', plain_field (Some True)), (''b'', plain_field (Some False)),
         (''c'', required_field ''c'')])"
  using three_level_schema
    [where a = "''a''" and b = "''b''" and c = "''c''" and nA = "''A''" and nB = "''B''"
       and nC = "''C''" and fa = "plain_field None" and fb = "plain_field (Some False)"
       and fa' = "plain_field (Some True)" and fc = "required_field ''c''"
       and stmtsC = "[(''a'', AField (plain_field (Some True))),
                      (''c'', AField (required_field ''c''))]"]
  by simp

text \<open>
  Claim C4 as stated: a redefined field name moves to the position of the overwriting
  declaration. It fails on the hierarchy \<^verbatim>\<open>A\<close>, \<^verbatim>\<open>B\<close>, \<^verbatim>\<open>C\<close> above: \<^verbatim>\<open>C\<close> redefines
  \<^verbatim>\<open>a\<close>, the merge with repositioning puts \<^verbatim>\<open>a\<close> behind \<^verbatim>\<open>b\<close>, and the schema the
  metaclass builds keeps \<^verbatim>\<open>a\<close> first.
\<close>

theorem reposition_counterexample:
  "class_stmt ''A'' [ModelBase Model_class] [(''a'', AField (plain_field (Some False)))]
     = Inr A_class \<and>
   class_stmt ''B'' [ModelBase A_class] [(''b'', AField (plain_field (Some False)))]
     = Inr B_class \<and>
   class_stmt ''C'' [ModelBase B_class]
       [(''a'', AField (required_field ''a'')), (''c'', AField (plain_field (Some False)))]
     = Inr C_class \<and>
   map fst (cls_fields C_class) = [''a'', ''b'', ''c''] \<and>
   map fst (schema_reposition [ModelBase B_class]
       [(''a'', AField (required_field ''a'')), (''c'', AField (plain_field (Some False)))])
     = [''b'', ''a'', ''c'']"
  by (simp add: build_defs example_defs schema_reposition_def merge_reposition_def
      dict_set_reposition_def declared_fields_def)

text \<open>
  Claim C4, amended. Let \<open>decls\<close> be the field declarations that reach a class, in merge
  order: the schemas of its bases, last base first, then the fields of its body. The
  keys of the schema are the declared names, each at the position of its first
  declaration (a redefinition does not move it), and each name is bound to its last
  declaration. Names declared once keep their relative order.
\<close>

theorem redefined_field_keeps_position:
  assumes "ModelMeta_new name bases attrs0 = Inr cls"
    and "decls = declared_fields bases (filter (\<lambda>(k, v). k \<noteq> ''export'') attrs0)"
  shows "map fst (cls_fields cls) = rev (remdups (rev (map fst decls))) \<and>
         map_of (cls_fields cls) = map_of (rev decls)"
  unfolding assms(2) ModelMeta_new_fields [OF assms(1)]
  by (simp add: keys_dict_update map_of_dict_update)

text \<open>Witness for the amended C4: the class \<^verbatim>\<open>C\<close>, whose declarations are \<^verbatim>\<open>a\<close>, \<^verbatim>\<open>b\<close>
  from \<^verbatim>\<open>B\<close>, then \<^verbatim>\<open>a\<close>, \<^verbatim>\<open>c\<close> from its body.\<close>

theorem redefined_field_keeps_position_witness:
  "ModelMeta_new ''C'' [ModelBase B_class]
       [(''export'', AObject True []), (''a'', AField (required_field ''a'')),
        (''c'', AField (plain_field (Some False)))] = Inr C_class \<and>
   [(''a'', plain_field (Some False)), (''b'', plain_field (Some False)),
    (''a'', required_field ''a''), (''c'', plain_field (Some False))] =
     declared_fields [ModelBase B_class]
       (filter (\<lambda>(k, v). k \<noteq> ''export'')
          [(''export'', AObject True []), (''a'', AField (required_field ''a'')),
           (''c'', AField (plain_field (Some False)))]) \<and>
   map fst (cls_fields C_class) = rev (remdups (rev [''a'', ''b'', ''a'', ''c''])) \<and>
   map fst (cls_fields C_class) = [''a'', ''b'', ''c''] \<and>
   map_of (cls_fields C_class) ''a'' = Some (required_field ''a'')"
proof -
  have a: "ModelMeta_new ''C'' [ModelBase B_class]
       [(''export'', AObject True []), (''a'', AField (required_field ''a'')),
        (''c'', AField (plain_field (Some False)))] = Inr C_class"
    by (simp add: build_defs B_class_def C_class_def)
  have b: "[(''a'', plain_field (Some False)), (''b'', plain_field (Some False)),
    (''a'', required_field ''a''), (''c'', plain_field (Some False))] =
     declared_fields [ModelBase B_class]
       (filter (\<lambda>(k, v). k \<noteq> ''export'')
          [(''export'', AObject True []), (''a'', AField (required_field ''a'')),
           (''c'', AField (plain_field (Some False)))])"
    by (simp add: declared_fields_def B_class_def)
  have c: "map fst (cls_fields C_class) = [''a'', ''b'', ''c'']"
    "map_of (cls_fields C_class) ''a'' = Some (required_field ''a'')"
    by (simp_all add: C_class_def)
  from redefined_field_keeps_position [OF a b] have
    "map fst (cls_fields C_class) = rev (remdups (rev [''a'', ''b'', ''a'', ''c'']))"
    by simp
  with a b c show ?thesis by blast
qed

section \<open>The options of a class\<close>






text \<open>For instance \<^verbatim>\<open>name\<close> and \<^verbatim>\<open>namespace\<close> are copied, and \<^verbatim>\<open>__doc__\<close> is not.\<close>

lemma ModelOptions_copies_public_attributes:
  "ModelOptions (Some (AObject True
       [(''__doc__'', PNone), (''name'', PStr ''people''), (''namespace'', PStr ''crm'')]))
     = [(''name'', PStr ''people''), (''namespace'', PStr ''crm'')]"
  by (simp add: ModelOptions_def)




section \<open>Validation\<close>

text \<open>The loop of \<^verbatim>\<open>_validate\<close> stops at the first field whose \<^verbatim>\<open>validate\<close> raises.\<close>

lemma validate_loop_first_failure:
  "validate_loop flds data =
     (case failures flds data of [] \<Rightarrow> None | (name, e) # rest \<Rightarrow> Some e)"
proof (induction flds)
  case Nil
  show ?case by (simp add: failures_def)
next
  case (Cons p flds)
  obtain name fld where p: "p = (name, fld)" by (cases p)
  show ?case
  proof (cases "field_validate fld (dict_get data name)")
    case None
    with Cons p show ?thesis by (simp add: failures_def)
  next
    case (Some e)
    with p show ?thesis by (simp add: failures_def)
  qed
qed

text \<open>
  Claim C2 as stated: when two fields are invalid, \<^verbatim>\<open>validate\<close> raises one error that
  collects both failures. It fails on \<^verbatim>\<open>Person\<close> after \<^verbatim>\<open>import_data({})\<close>: both
  \<^verbatim>\<open>age\<close> and \<^verbatim>\<open>name\<close> fail, \<^verbatim>\<open>validate\<close> raises the exception of \<^verbatim>\<open>age\<close> alone, and
  that is not the collected error.
\<close>

theorem validate_aggregates_counterexample:
  "import_data \<lparr> inst_type = Person, inst_id = 0, inst_data = [] \<rparr> (PDict [])
     = (None, blank_person) \<and>
   failures (cls_fields (inst_type blank_person)) (inst_data blank_person) =
     [(''age'', FieldError ''age: this is a required field''),
      (''name'', FieldError ''name: this is a required field'')] \<and>
   validate blank_person = Some (FieldError ''age: this is a required field'') \<and>
   validate_collect_all blank_person =
     Some (ValidationError
       [(''age'', FieldError ''age: this is a required field''),
        (''name'', FieldError ''name: this is a required field'')]) \<and>
   validate blank_person \<noteq> validate_collect_all blank_person"
  by (simp add: blank_person_def example_defs run_defs failures_def validate_collect_all_def)

text \<open>
  Claim C2, amended. \<^verbatim>\<open>validate\<close> is fail-fast: it succeeds when no field of the schema
  fails on the stored data, and otherwise raises the exception of the first failing
  field, in schema order, as that field raised it; the fields after it are not reported.
\<close>

theorem validate_raises_first_failure:
  "validate self =
     (case failures (cls_fields (inst_type self)) (inst_data self) of
        [] \<Rightarrow> None
      | (name, e) # rest \<Rightarrow> Some e)"
  by (simp add: validate_def validate_internal_def validate_loop_first_failure)

section \<open>Serialization: projection of the fields\<close>

lemma serialize_fields_step:
  assumes "serialize_fields ((n, f) # flds) store native data = Inr out"
  obtains w where
    "(if native then execute (field_to_python f) (dict_get store n)
      else execute (field_to_data f) (dict_get store n)) = Inr w"
    "serialize_fields flds store native
       (if truthy w \<and> field_projection f \<noteq> None then dict_set data n w
        else if w = PNone \<and> field_projection f = Some True then dict_set data n PNone
        else data) = Inr out"
proof (cases "if native then execute (field_to_python f) (dict_get store n)
      else execute (field_to_data f) (dict_get store n)")
  case (Inl e)
  with assms show ?thesis by (simp add: Let_def)
next
  case (Inr w)
  with assms that [of w] show ?thesis by (simp add: Let_def)
qed

text \<open>The field loop leaves the keys that are not field names as they were.\<close>

lemma serialize_fields_other:
  "serialize_fields flds store native data = Inr out \<Longrightarrow> k \<notin> fst ` set flds \<Longrightarrow>
     map_of out k = map_of data k"
proof (induction flds arbitrary: data)
  case Nil
  then show ?case by simp
next
  case (Cons p flds)
  obtain n f where p: "p = (n, f)" by (cases p)
  from Cons.prems(2) p have ne: "n \<noteq> k" and rest: "k \<notin> fst ` set flds" by auto
  from Cons.prems(1) have "serialize_fields ((n, f) # flds) store native data = Inr out"
    unfolding p .
  then obtain w where
    run: "serialize_fields flds store native
       (if truthy w \<and> field_projection f \<noteq> None then dict_set data n w
        else if w = PNone \<and> field_projection f = Some True then dict_set data n PNone
        else data) = Inr out"
    by (rule serialize_fields_step)
  have "map_of (if truthy w \<and> field_projection f \<noteq> None then dict_set data n w
        else if w = PNone \<and> field_projection f = Some True then dict_set data n PNone
        else data) k = map_of data k"
    using ne by (simp add: map_of_dict_set)
  with Cons.IH [OF run rest] show ?case by simp
qed

text \<open>What the field loop leaves at the key of a field.\<close>

lemma serialize_fields_entry:
  "serialize_fields flds store native data = Inr out \<Longrightarrow> (name, fld) \<in> set flds \<Longrightarrow>
   distinct (map fst flds) \<Longrightarrow>
     \<exists>v. (if native then execute (field_to_python fld) (dict_get store name)
          else execute (field_to_data fld) (dict_get store name)) = Inr v \<and>
         map_of out name =
           (if truthy v \<and> field_projection fld \<noteq> None then Some v
            else if v = PNone \<and> field_projection fld = Some True then Some PNone
            else map_of data name)"
proof (induction flds arbitrary: data)
  case Nil
  then show ?case by simp
next
  case (Cons p flds)
  obtain n f where p: "p = (n, f)" by (cases p)
  from Cons.prems(3) p have fresh: "n \<notin> fst ` set flds" and dist: "distinct (map fst flds)"
    by auto
  from Cons.prems(1) have "serialize_fields ((n, f) # flds) store native data = Inr out"
    unfolding p .
  then obtain w where
    w: "(if native then execute (field_to_python f) (dict_get store n)
         else execute (field_to_data f) (dict_get store n)) = Inr w"
    and run: "serialize_fields flds store native
               (if truthy w \<and> field_projection f \<noteq> None then dict_set data n w
                else if w = PNone \<and> field_projection f = Some True then dict_set data n PNone
                else data) = Inr out"
    by (rule serialize_fields_step)
  show ?case
  proof (cases "(name, fld) = (n, f)")
    case True
    then have nf: "name = n" "fld = f" by simp_all
    have "map_of out n =
            map_of (if truthy w \<and> field_projection f \<noteq> None then dict_set data n w
                    else if w = PNone \<and> field_projection f = Some True
                    then dict_set data n PNone else data) n"
      by (rule serialize_fields_other [OF run fresh])
    also have "\<dots> = (if truthy w \<and> field_projection f \<noteq> None then Some w
            else if w = PNone \<and> field_projection f = Some True then Some PNone
            else map_of data n)"
      by (auto simp: map_of_dict_set)
    finally have "map_of out n = (if truthy w \<and> field_projection f \<noteq> None then Some w
            else if w = PNone \<and> field_projection f = Some True then Some PNone
            else map_of data n)" .
    with w show ?thesis unfolding nf by blast
  next
    case False
    with Cons.prems(2) p have mem: "(name, fld) \<in> set flds" by auto
    with fresh have "name \<noteq> n" by force
    then have eq: "map_of (if truthy w \<and> field_projection f \<noteq> None then dict_set data n w
                else if w = PNone \<and> field_projection f = Some True then dict_set data n PNone
                else data) name = map_of data name"
      by (auto simp: map_of_dict_set)
    show ?thesis using Cons.IH [OF run mem dist] unfolding eq .
  qed
qed

section \<open>Serialization: the export methods\<close>

lemma serialize_exports_step:
  assumes "serialize_exports ((n, f) # exps) store data = Inr out"
  obtains w where "await_call f store = Inr w"
    "serialize_exports exps store (dict_set data n w) = Inr out"
proof (cases "await_call f store")
  case (Inl e)
  with assms show ?thesis by simp
next
  case (Inr w)
  with assms that [of w] show ?thesis by simp
qed

lemma serialize_exports_other:
  "serialize_exports exps store data = Inr out \<Longrightarrow> k \<notin> fst ` set exps \<Longrightarrow>
     map_of out k = map_of data k"
proof (induction exps arbitrary: data)
  case Nil
  then show ?case by simp
next
  case (Cons p exps)
  obtain n f where p: "p = (n, f)" by (cases p)
  from Cons.prems(2) p have ne: "n \<noteq> k" and rest: "k \<notin> fst ` set exps" by auto
  from Cons.prems(1) have "serialize_exports ((n, f) # exps) store data = Inr out"
    unfolding p .
  then obtain w where run: "serialize_exports exps store (dict_set data n w) = Inr out"
    by (rule serialize_exports_step)
  from Cons.IH [OF run rest] ne show ?case
    by (simp add: map_of_dict_set)
qed

lemma serialize_exports_keys:
  "serialize_exports exps store data = Inr out \<Longrightarrow>
     set (map fst out) = set (map fst data) \<union> set (map fst exps)"
proof (induction exps arbitrary: data)
  case Nil
  then show ?case by simp
next
  case (Cons p exps)
  obtain n f where p: "p = (n, f)" by (cases p)
  from Cons.prems(1) have "serialize_exports ((n, f) # exps) store data = Inr out"
    unfolding p .
  then obtain w where run: "serialize_exports exps store (dict_set data n w) = Inr out"
    by (rule serialize_exports_step)
  have "set (map fst (dict_set data n w)) = insert n (set (map fst data))"
    by (auto simp: keys_dict_set)
  with Cons.IH [OF run] p show ?case
    by auto
qed

lemma serialize_exports_entry:
  "serialize_exports exps store data = Inr out \<Longrightarrow> (name, func) \<in> set exps \<Longrightarrow>
   distinct (map fst exps) \<Longrightarrow>
     \<exists>v. await_call func store = Inr v \<and> map_of out name = Some v"
proof (induction exps arbitrary: data)
  case Nil
  then show ?case by simp
next
  case (Cons p exps)
  obtain n f where p: "p = (n, f)" by (cases p)
  from Cons.prems(3) p have fresh: "n \<notin> fst ` set exps" and dist: "distinct (map fst exps)"
    by auto
  from Cons.prems(1) have "serialize_exports ((n, f) # exps) store data = Inr out"
    unfolding p .
  then obtain w where
    w: "await_call f store = Inr w"
    and run: "serialize_exports exps store (dict_set data n w) = Inr out"
    by (rule serialize_exports_step)
  show ?case
  proof (cases "(name, func) = (n, f)")
    case True
    from serialize_exports_other [OF run fresh] w True show ?thesis
      by (simp add: map_of_dict_set)
  next
    case False
    with Cons.prems(2) p have mem: "(name, func) \<in> set exps" by auto
    from Cons.IH [OF run mem dist] show ?thesis .
  qed
qed

section \<open>Serialization: the claims\<close>

text \<open>
  Claim C1 as stated: a field whose converted value is falsy and whose projection is
  "always" appears in the output with an empty value. It fails on a counter that holds
  0: the field \<^verbatim>\<open>count\<close> has projection \<^verbatim>\<open>True\<close>, its converted value is 0 in both
  views, and both views are the empty dictionary.
\<close>

theorem falsy_always_counterexample:
  "import_data \<lparr> inst_type = Counter, inst_id = 0, inst_data = [] \<rparr>
       (PDict [(''count'', PInt 0)]) = (None, zero_counter) \<and>
   cls_fields (inst_type zero_counter) = [(''count'', plain_field (Some True))] \<and>
   field_projection (plain_field (Some True)) = Some True \<and>
   execute (field_to_data (plain_field (Some True)))
       (dict_get (inst_data zero_counter) ''count'') = Inr (PInt 0) \<and>
   execute (field_to_python (plain_field (Some True)))
       (dict_get (inst_data zero_counter) ''count'') = Inr (PInt 0) \<and>
   \<not> truthy (PInt 0) \<and>
   to_data zero_counter = Inr [] \<and> to_python zero_counter = Inr []"
  by (simp add: zero_counter_def example_defs run_defs)

text \<open>
  Claim C1, amended. Let a view (\<^verbatim>\<open>to_python\<close> when \<open>native\<close>, \<^verbatim>\<open>to_data\<close> otherwise)
  return the dictionary \<open>out\<close>, and let \<open>name\<close> be a field of the schema that is not also
  the name of an export method. Then the field's conversion returned a value \<open>v\<close>, and:
  when \<open>v\<close> is truthy and the projection is not "never", \<open>out\<close> has \<open>v\<close> at \<open>name\<close>; when
  \<open>v\<close> is \<^verbatim>\<open>None\<close> and the projection is "always", \<open>out\<close> has \<^verbatim>\<open>None\<close> at \<open>name\<close>; in
  every other case (a falsy value that is not \<^verbatim>\<open>None\<close> whatever the projection, \<^verbatim>\<open>None\<close>
  with "if present", any value with "never") \<open>out\<close> has no key \<open>name\<close>.
\<close>

theorem projection_rule:
  assumes out: "(if native then to_python self else to_data self) = Inr out"
    and mem: "(name, fld) \<in> set (cls_fields (inst_type self))"
    and dist: "distinct (map fst (cls_fields (inst_type self)))"
    and noexp: "name \<notin> fst ` set (cls_exports (inst_type self))"
  shows "\<exists>v. (if native then execute (field_to_python fld) (dict_get (inst_data self) name)
              else execute (field_to_data fld) (dict_get (inst_data self) name)) = Inr v \<and>
             map_of out name =
               (if truthy v \<and> field_projection fld \<noteq> None then Some v
                else if v = PNone \<and> field_projection fld = Some True then Some PNone
                else None)"
proof -
  from out have ser: "serialize self native True True = Inr out"
    by (simp add: to_python_def to_data_def split: if_splits)
  then obtain data where
    flds: "serialize_fields (cls_fields (inst_type self)) (inst_data self) native [] = Inr data"
    and exps: "serialize_exports (cls_exports (inst_type self)) (inst_data self) data = Inr out"
    by (auto simp: serialize_def split: sum.splits)
  from serialize_exports_other [OF exps noexp] have eq: "map_of out name = map_of data name" .
  have empty: "map_of ([] :: pydict) name = None" by simp
  show ?thesis using serialize_fields_entry [OF flds mem dist] unfolding eq empty .
qed

text \<open>Witness for the amended C1: a counter that holds \<^verbatim>\<open>None\<close>; its native view has
  \<^verbatim>\<open>None\<close> at \<^verbatim>\<open>count\<close>.\<close>

theorem projection_rule_witness:
  "(if True then to_python none_counter else to_data none_counter) = Inr [(''count'', PNone)] \<and>
   (''count'', plain_field (Some True)) \<in> set (cls_fields (inst_type none_counter)) \<and>
   distinct (map fst (cls_fields (inst_type none_counter))) \<and>
   ''count'' \<notin> fst ` set (cls_exports (inst_type none_counter)) \<and>
   (\<exists>v. (if True then execute (field_to_python (plain_field (Some True)))
                       (dict_get (inst_data none_counter) ''count'')
         else execute (field_to_data (plain_field (Some True)))
                       (dict_get (inst_data none_counter) ''count'')) = Inr v \<and>
        map_of [(''count'', PNone)] ''count'' =
          (if truthy v \<and> field_projection (plain_field (Some True)) \<noteq> None then Some v
           else if v = PNone \<and> field_projection (plain_field (Some True)) = Some True
           then Some PNone else None))"
proof -
  have a: "(if True then to_python none_counter else to_data none_counter)
             = Inr [(''count'', PNone)]"
    by (simp add: none_counter_def example_defs run_defs)
  have b: "(''count'', plain_field (Some True)) \<in> set (cls_fields (inst_type none_counter))"
    by (simp add: none_counter_def Counter_def)
  have c: "distinct (map fst (cls_fields (inst_type none_counter)))"
    by (simp add: none_counter_def Counter_def)
  have d: "''count'' \<notin> fst ` set (cls_exports (inst_type none_counter))"
    by (simp add: none_counter_def Counter_def)
  from projection_rule [OF a b c d] a b c d show ?thesis by blast
qed

text \<open>A field conversion goes through \<^verbatim>\<open>_execute\<close>, which gives the result of the body
  whether the conversion is a plain function or a coroutine function.\<close>

lemma execute_uniform:
  "execute \<lparr> is_coroutine_function = b, body = f \<rparr> x = f x"
  by (cases "f x") (simp_all add: execute_def await_call_def call_def)

text \<open>An export method is called and what it returns is awaited: a plain function that
  returns anything but a coroutine object makes the export loop raise \<^verbatim>\<open>TypeError\<close>.\<close>

lemma serialize_exports_plain_function:
  assumes "\<not> is_coroutine_function func" and "body func store = Inr v"
    and "\<forall>r. v \<noteq> PCoro r"
  shows "serialize_exports ((name, func) # rest) store data =
           Inl (TypeError ''object can't be used in 'await' expression'')"
proof -
  from assms(1,2) have "call func store = Inr v" by (simp add: call_def)
  moreover from assms(3) have "await v = Inl (TypeError ''object can't be used in 'await' expression'')"
    by (cases v) simp_all
  ultimately show ?thesis by (simp add: await_call_def)
qed

text \<open>
  Claim C5 says that export methods are run through the same contract as the field
  conversions, so that a plain function works as an export method. The code at the class
  \<^verbatim>\<open>Greeter\<close>, whose export method \<^verbatim>\<open>greeting\<close> is a plain function returning
  \<^verbatim>\<open>'hello'\<close>: the returned string is awaited, and both views raise \<^verbatim>\<open>TypeError\<close>.
\<close>

theorem plain_export_method_raises:
  "to_data \<lparr> inst_type = Greeter, inst_id = 0, inst_data = [(''title'', PStr ''Dr'')] \<rparr>
     = Inl (TypeError ''object can't be used in 'await' expression'') \<and>
   to_python \<lparr> inst_type = Greeter, inst_id = 0, inst_data = [(''title'', PStr ''Dr'')] \<rparr>
     = Inl (TypeError ''object can't be used in 'await' expression'')"
  by (simp add: example_defs run_defs)

text \<open>
  Claim C6. When a view (\<^verbatim>\<open>to_python\<close> when \<open>native\<close>, \<^verbatim>\<open>to_data\<close> otherwise) returns
  the dictionary \<open>out\<close>, every name of the export map is a key of \<open>out\<close>, whatever the
  fields and their projections are; and, the names of the export map being pairwise
  different, the value at the name is what awaiting the export method returned, falsy or
  not.
\<close>

theorem exports_always_included:
  assumes out: "(if native then to_python self else to_data self) = Inr out"
    and mem: "(name, func) \<in> set (cls_exports (inst_type self))"
  shows "name \<in> set (map fst out) \<and>
         (distinct (map fst (cls_exports (inst_type self))) \<longrightarrow>
            (\<exists>v. await_call func (inst_data self) = Inr v \<and> map_of out name = Some v))"
proof -
  from out have ser: "serialize self native True True = Inr out"
    by (simp add: to_python_def to_data_def split: if_splits)
  then obtain data where
    exps: "serialize_exports (cls_exports (inst_type self)) (inst_data self) data = Inr out"
    by (auto simp: serialize_def split: sum.splits)
  from mem have "name \<in> set (map fst (cls_exports (inst_type self)))" by force
  with serialize_exports_keys [OF exps] have "name \<in> set (map fst out)" by simp
  moreover have "distinct (map fst (cls_exports (inst_type self))) \<longrightarrow>
            (\<exists>v. await_call func (inst_data self) = Inr v \<and> map_of out name = Some v)"
    using serialize_exports_entry [OF exps mem] by blast
  ultimately show ?thesis by blast
qed

text \<open>Witness for C6: the export method \<^verbatim>\<open>tag\<close> returns \<^verbatim>\<open>None\<close> and has the name of a
  field that is never projected; both views have the key \<^verbatim>\<open>tag\<close>, with \<^verbatim>\<open>None\<close>.\<close>

theorem exports_always_included_witness:
  "(if False then to_python tagged else to_data tagged) = Inr [(''tag'', PNone)] \<and>
   (if True then to_python tagged else to_data tagged) = Inr [(''tag'', PNone)] \<and>
   (''tag'', tag) \<in> set (cls_exports (inst_type tagged)) \<and>
   (''tag'', plain_field None) \<in> set (cls_fields (inst_type tagged)) \<and>
   field_projection (plain_field None) = None \<and>
   ''tag'' \<in> set (map fst [(''tag'', PNone)]) \<and>
   distinct (map fst (cls_exports (inst_type tagged))) \<and>
   (\<exists>v. await_call tag (inst_data tagged) = Inr v \<and> map_of [(''tag'', PNone)] ''tag'' = Some v)"
proof -
  have a: "(if False then to_python tagged else to_data tagged) = Inr [(''tag'', PNone)]"
    by (simp add: tagged_def example_defs run_defs)
  have a': "(if True then to_python tagged else to_data tagged) = Inr [(''tag'', PNone)]"
    by (simp add: tagged_def example_defs run_defs)
  have b: "(''tag'', tag) \<in> set (cls_exports (inst_type tagged))"
    by (simp add: tagged_def Tagged_def)
  have c: "field_projection (plain_field None) = None"
    "(''tag'', plain_field None) \<in> set (cls_fields (inst_type tagged))"
    "distinct (map fst (cls_exports (inst_type tagged)))"
    by (simp_all add: tagged_def Tagged_def plain_field_def)
  from exports_always_included [OF a b] a a' b c show ?thesis by blast
qed

section \<open>Equality of instances\<close>

lemma eq_loop_all:
  "eq_loop getattr self other ks = (\<forall>k\<in>set ks. \<not> py_ne (getattr self k) (getattr other k))"
  by (induction ks) auto

text \<open>
  Claim C8 as stated: equality of two instances of one class is symmetric. It fails on
  two counters, one built without data and one built from \<^verbatim>\<open>{'count': 1}\<close>: the first
  has no field with data, so it equals the second; the second has \<^verbatim>\<open>count\<close>, which
  reads 1 on the one and \<^verbatim>\<open>None\<close> on the other, so it does not equal the first.
\<close>

theorem eq_not_symmetric_counterexample:
  "Model_init Counter 2 (PDict []) = Inr fresh_counter \<and>
   Model_init Counter 3 (PDict [(''count'', PInt 1)]) = Inr one_counter \<and>
   inst_type fresh_counter = inst_type one_counter \<and>
   Model_eq stored_value fresh_counter one_counter = Some True \<and>
   Model_eq stored_value one_counter fresh_counter = Some False"
  by (simp add: Model_init_def fresh_counter_def one_counter_def example_defs run_defs
      Model_eq_def iter_def stored_value_def py_ne_def)

text \<open>
  Claim C8, amended. For two different instances of the same class, \<^verbatim>\<open>self == other\<close>
  holds exactly when every schema field that has data in \<^verbatim>\<open>self\<close>, the left operand,
  reads equal on the two instances (whatever the field accessor is). The fields that
  have data in \<^verbatim>\<open>other\<close> only are not compared.
\<close>

theorem eq_compares_fields_of_left_operand:
  assumes "inst_type self = inst_type other" and "inst_id self \<noteq> inst_id other"
  shows "Model_eq getattr self other =
           Some (\<forall>k\<in>set (iter self). \<not> py_ne (getattr self k) (getattr other k))"
  using assms by (simp add: Model_eq_def eq_loop_all)

text \<open>Witness for the amended C8: the counters that hold 1 and 2 are not equal, and
  \<^verbatim>\<open>count\<close>, which has data in the first, reads differently on the two.\<close>

theorem eq_compares_fields_of_left_operand_witness:
  "inst_type one_counter = inst_type two_counter \<and>
   inst_id one_counter \<noteq> inst_id two_counter \<and>
   iter one_counter = [''count''] \<and>
   py_ne (stored_value one_counter ''count'') (stored_value two_counter ''count'') \<and>
   Model_eq stored_value one_counter two_counter = Some False \<and>
   Model_eq stored_value one_counter two_counter =
     Some (\<forall>k\<in>set (iter one_counter).
             \<not> py_ne (stored_value one_counter k) (stored_value two_counter k))"
proof -
  have a: "inst_type one_counter = inst_type two_counter"
    by (simp add: one_counter_def two_counter_def)
  have b: "inst_id one_counter \<noteq> inst_id two_counter"
    by (simp add: one_counter_def two_counter_def)
  have c: "iter one_counter = [''count'']"
    "py_ne (stored_value one_counter ''count'') (stored_value two_counter ''count'')"
    by (simp_all add: one_counter_def two_counter_def Counter_def iter_def stored_value_def
        dict_get_def py_ne_def)
  from eq_compares_fields_of_left_operand [OF a b, of stored_value] c
  have "Model_eq stored_value one_counter two_counter = Some False" by simp
  with eq_compares_fields_of_left_operand [OF a b, of stored_value] a b c
  show ?thesis by simp
qed

section \<open>The store after an import\<close>

lemma convert_loop_step:
  assumes "convert_loop ((n, f) # flds) data native acc = Inr out"
  obtains w where
    "(if native then call (field_to_python f) (dict_get data n)
      else call (field_to_data f) (dict_get data n)) = Inr w"
    "convert_loop flds data native (dict_set acc n w) = Inr out"
proof (cases "if native then call (field_to_python f) (dict_get data n)
      else call (field_to_data f) (dict_get data n)")
  case (Inl e)
  with assms show ?thesis by simp
next
  case (Inr w)
  with assms that [of w] show ?thesis by simp
qed

text \<open>The keys of the converted dictionary: the field names, in schema order.\<close>

lemma convert_loop_keys:
  "convert_loop flds data native acc = Inr out \<Longrightarrow> distinct (map fst flds) \<Longrightarrow>
   set (map fst flds) \<inter> set (map fst acc) = {} \<Longrightarrow>
     map fst out = map fst acc @ map fst flds"
proof (induction flds arbitrary: acc)
  case Nil
  then show ?case by simp
next
  case (Cons p flds)
  obtain n f where p: "p = (n, f)" by (cases p)
  from Cons.prems(1) have "convert_loop ((n, f) # flds) data native acc = Inr out"
    unfolding p .
  then obtain w where run: "convert_loop flds data native (dict_set acc n w) = Inr out"
    by (rule convert_loop_step)
  from Cons.prems(3) p have new: "n \<notin> set (map fst acc)" by auto
  then have keys: "map fst (dict_set acc n w) = map fst acc @ [n]"
    by (simp add: keys_dict_set)
  from Cons.prems(2) p have dist: "distinct (map fst flds)" and fresh: "n \<notin> set (map fst flds)"
    by auto
  from Cons.prems(3) p fresh
  have disj: "set (map fst flds) \<inter> set (map fst (dict_set acc n w)) = {}"
    unfolding keys by auto
  from Cons.IH [OF run dist disj] show ?case
    unfolding keys p by simp
qed

lemma convert_loop_other:
  "convert_loop flds data native acc = Inr out \<Longrightarrow> k \<notin> fst ` set flds \<Longrightarrow>
     map_of out k = map_of acc k"
proof (induction flds arbitrary: acc)
  case Nil
  then show ?case by simp
next
  case (Cons p flds)
  obtain n f where p: "p = (n, f)" by (cases p)
  from Cons.prems(2) p have ne: "n \<noteq> k" and rest: "k \<notin> fst ` set flds" by auto
  from Cons.prems(1) have "convert_loop ((n, f) # flds) data native acc = Inr out"
    unfolding p .
  then obtain w where run: "convert_loop flds data native (dict_set acc n w) = Inr out"
    by (rule convert_loop_step)
  from Cons.IH [OF run rest] ne show ?case
    by (simp add: map_of_dict_set)
qed

text \<open>The value at a field name: what the conversion returned for \<^verbatim>\<open>data.get(name)\<close>.\<close>

lemma convert_loop_entry:
  "convert_loop flds data native acc = Inr out \<Longrightarrow> (name, fld) \<in> set flds \<Longrightarrow>
   distinct (map fst flds) \<Longrightarrow>
     \<exists>v. (if native then call (field_to_python fld) (dict_get data name)
          else call (field_to_data fld) (dict_get data name)) = Inr v \<and>
         map_of out name = Some v"
proof (induction flds arbitrary: acc)
  case Nil
  then show ?case by simp
next
  case (Cons p flds)
  obtain n f where p: "p = (n, f)" by (cases p)
  from Cons.prems(3) p have fresh: "n \<notin> fst ` set flds" and dist: "distinct (map fst flds)"
    by auto
  from Cons.prems(1) have "convert_loop ((n, f) # flds) data native acc = Inr out"
    unfolding p .
  then obtain w where
    w: "(if native then call (field_to_python f) (dict_get data n)
         else call (field_to_data f) (dict_get data n)) = Inr w"
    and run: "convert_loop flds data native (dict_set acc n w) = Inr out"
    by (rule convert_loop_step)
  show ?case
  proof (cases "(name, fld) = (n, f)")
    case True
    then have nf: "name = n" "fld = f" by simp_all
    from convert_loop_other [OF run fresh] have "map_of out n = Some w"
      by (simp add: map_of_dict_set)
    with w show ?thesis unfolding nf by blast
  next
    case False
    with Cons.prems(2) p have mem: "(name, fld) \<in> set flds" by auto
    from Cons.IH [OF run mem dist] show ?thesis .
  qed
qed

lemma items_loop_present:
  "set ks \<subseteq> fst ` set d \<Longrightarrow> \<exists>r. items_loop d ks = Inr r \<and> map fst r = ks"
proof (induction ks)
  case Nil
  show ?case by simp
next
  case (Cons k ks)
  from Cons.prems have "k \<in> fst ` set d" by simp
  then obtain v where v: "map_of d k = Some v"
    by (metis domD dom_map_of_conv_image_fst)
  from Cons obtain r where "items_loop d ks = Inr r" "map fst r = ks" by auto
  with v show ?case by (simp add: dict_getitem_def)
qed

text \<open>
  Claim C10. After a call of \<^verbatim>\<open>import_data\<close> that returns normally, on an instance of
  a class whose field names are pairwise different (as those of every class the
  metaclass builds are), the input was a dictionary \<open>d\<close>,
  the keys of the store are exactly the field names of the schema,
  in schema order, so that keys of the input that are not field names are not stored;
  every field holds what its \<^verbatim>\<open>to_python\<close> returned for the merged input at its name,
  which is \<^verbatim>\<open>to_python(None)\<close> for a field that neither the old store nor the input
  has; and iteration and \<^verbatim>\<open>items()\<close> enumerate every field of the schema.
\<close>

theorem import_data_store_keys:
  assumes imp: "import_data self data = (None, self')"
    and dist: "distinct (map fst (cls_fields (inst_type self)))"
  shows "\<exists>d. data = PDict d \<and>
         inst_type self' = inst_type self \<and>
         map fst (inst_data self') = map fst (cls_fields (inst_type self)) \<and>
         (\<forall>(name, fld) \<in> set (cls_fields (inst_type self)).
            \<exists>v. call (field_to_python fld) (dict_get (dict_update (inst_data self) d) name)
                   = Inr v \<and>
                map_of (inst_data self') name = Some v \<and>
                (name \<notin> fst ` set (inst_data self) \<and> name \<notin> fst ` set d \<longrightarrow>
                   call (field_to_python fld) PNone = Inr v)) \<and>
         iter self' = map fst (cls_fields (inst_type self)) \<and>
         (\<exists>r. items self' = Inr r \<and> map fst r = map fst (cls_fields (inst_type self)))"
proof -
  from imp obtain d where d: "data = PDict d" by (cases data) simp_all
  let ?flds = "cls_fields (inst_type self)"
  let ?merged = "dict_update (inst_data self) d"
  from imp [unfolded d] obtain converted where
    conv: "convert_loop ?flds ?merged True [] = Inr converted"
    and self': "self' = self\<lparr>inst_data := converted\<rparr>"
    by (auto simp: Let_def convert_def split: sum.splits)
  have ty: "inst_type self' = inst_type self" and data: "inst_data self' = converted"
    using self' by simp_all
  from convert_loop_keys [OF conv dist] have keys: "map fst converted = map fst ?flds" by simp
  have entries: "\<forall>(name, fld) \<in> set ?flds.
            \<exists>v. call (field_to_python fld) (dict_get ?merged name) = Inr v \<and>
                map_of converted name = Some v \<and>
                (name \<notin> fst ` set (inst_data self) \<and> name \<notin> fst ` set d \<longrightarrow>
                   call (field_to_python fld) PNone = Inr v)"
  proof (clarify)
    fix name fld
    assume mem: "(name, fld) \<in> set ?flds"
    from convert_loop_entry [OF conv mem dist] obtain v where
      v: "call (field_to_python fld) (dict_get ?merged name) = Inr v"
         "map_of converted name = Some v"
      by auto
    have "name \<notin> fst ` set (inst_data self) \<and> name \<notin> fst ` set d \<longrightarrow>
            dict_get ?merged name = PNone"
      using keys_dict_update_set [of "inst_data self" d]
      by (auto intro!: dict_get_absent)
    with v show "\<exists>v. call (field_to_python fld) (dict_get ?merged name) = Inr v \<and>
                map_of converted name = Some v \<and>
                (name \<notin> fst ` set (inst_data self) \<and> name \<notin> fst ` set d \<longrightarrow>
                   call (field_to_python fld) PNone = Inr v)"
      by auto
  qed
  have it: "iter self' = map fst ?flds"
    unfolding iter_def ty data keys by simp
  have "set (iter self') \<subseteq> fst ` set (inst_data self')"
    unfolding it data using keys by (metis set_map subset_refl)
  from items_loop_present [OF this] it
  have its: "\<exists>r. items self' = Inr r \<and> map fst r = map fst ?flds"
    by (simp add: items_def)
  from d ty keys entries it its show ?thesis unfolding data by blast
qed

text \<open>
  Witness for C10: \<^verbatim>\<open>{'name': 'Al', 'nickname': 'Big Al'}\<close> is imported into a new
  person. \<^verbatim>\<open>nickname\<close> is not stored, \<^verbatim>\<open>age\<close> is stored with \<^verbatim>\<open>to_python(None)\<close>, and
  both fields are enumerated.
\<close>

theorem import_data_store_keys_witness:
  "import_data new_person (PDict [(''name'', PStr ''Al''), (''nickname'', PStr ''Big Al'')])
     = (None, al_person) \<and>
   distinct (map fst (cls_fields (inst_type new_person))) \<and>
   inst_type al_person = inst_type new_person \<and>
   map fst (inst_data al_person) = map fst (cls_fields (inst_type new_person)) \<and>
   map fst (inst_data al_person) = [''age'', ''name''] \<and>
   (''age'', required_field ''age'') \<in> set (cls_fields (inst_type new_person)) \<and>
   ''age'' \<notin> fst ` set (inst_data new_person) \<and>
   ''age'' \<notin> fst ` set [(''name'', PStr ''Al''), (''nickname'', PStr ''Big Al'')] \<and>
   call (field_to_python (required_field ''age'')) PNone = Inr PNone \<and>
   map_of (inst_data al_person) ''age'' = Some PNone \<and>
   map_of (inst_data al_person) ''name'' = Some (PStr ''Al'') \<and>
   map_of (inst_data al_person) ''nickname'' = None \<and>
   iter al_person = [''age'', ''name''] \<and>
   items al_person = Inr [(''age'', PNone), (''name'', PStr ''Al'')]"
proof -
  have a: "import_data new_person
       (PDict [(''name'', PStr ''Al''), (''nickname'', PStr ''Big Al'')]) = (None, al_person)"
    by (simp add: new_person_def al_person_def example_defs run_defs)
  have b: "distinct (map fst (cls_fields (inst_type new_person)))"
    by (simp add: new_person_def Person_def)
  have c: "(''age'', required_field ''age'') \<in> set (cls_fields (inst_type new_person))"
    "''age'' \<notin> fst ` set (inst_data new_person)"
    "''age'' \<notin> fst ` set [(''name'', PStr ''Al''), (''nickname'', PStr ''Big Al'')]"
    "call (field_to_python (required_field ''age'')) PNone = Inr PNone"
    "map fst (inst_data al_person) = [''age'', ''name'']"
    "map_of (inst_data al_person) ''age'' = Some PNone"
    "map_of (inst_data al_person) ''name'' = Some (PStr ''Al'')"
    "map_of (inst_data al_person) ''nickname'' = None"
    "iter al_person = [''age'', ''name'']"
    "items al_person = Inr [(''age'', PNone), (''name'', PStr ''Al'')]"
    by (simp_all add: new_person_def al_person_def example_defs call_def iter_def items_def
        dict_getitem_def)
  from import_data_store_keys [OF a b] have
    "inst_type al_person = inst_type new_person"
    "map fst (inst_data al_person) = map fst (cls_fields (inst_type new_person))"
    by simp_all
  with a b c show ?thesis by blast
qed

end
